theory Spec2Isabelle
  imports Complex_Main
begin

section \<open>The schematic document\<close>

text \<open>
  The two modules \<^verbatim>\<open>kicad_utils.py\<close> and \<^verbatim>\<open>schematic_editor.py\<close> edit a kiutils
  \<^verbatim>\<open>Schematic\<close> held in memory. The kiutils classes are modelled by records with the
  fields the two modules read or write. Coordinates are Python floats, that is IEEE-754
  doubles, taken as the reals they denote: storing, copying and comparing them is
  exact, and \<^verbatim>\<open>grid_align\<close>, the one operation that computes with them, rounds each
  result to a double.
  Every \<^verbatim>\<open>uuid.uuid4()\<close> draw is an explicit argument of the operation making it.
  The \<^verbatim>\<open>print\<close> calls of \<^verbatim>\<open>schematic_editor.py\<close> write to standard output only;
  they change neither the editor nor any file and are left out.
\<close>

record Position =
  X :: real
  Y :: real
  angle :: "real option"

record Property =
  key :: string
  prop_value :: string
  prop_position :: Position

record SchematicSymbol =
  libraryIdentifier :: string
  position :: Position
  unit :: int
  uuid :: string
  properties :: "Property list"

record DrawnWire =
  points :: "Position list"
  wire_uuid :: string

record Junction =
  junction_position :: Position
  junction_uuid :: string
  diameter :: real

record Label =
  label_text :: string
  label_position :: Position
  label_uuid :: string

record Schematic =
  schematicSymbols :: "SchematicSymbol list"
  wires :: "DrawnWire list"
  junctions :: "Junction list"
  labels :: "Label list"
  globalLabels :: "Label list"

text \<open>
  A \<^verbatim>\<open>pathlib.Path\<close> is its root (\<^verbatim>\<open>''''\<close> or \<^verbatim>\<open>''/''\<close>) and its parts below the root.
\<close>

record Path =
  root :: string
  parts :: "string list"

text \<open>
  \<^verbatim>\<open>kicad_utils.SchematicEditor\<close> has the attributes \<^verbatim>\<open>path\<close> and \<^verbatim>\<open>sch\<close>.
  \<^verbatim>\<open>schematic_editor.SchematicEditor\<close> is a separate class with the same two attributes
  and three more; it is the record \<open>session_editor\<close> below, which extends this one.
\<close>

record editor =
  path :: Path
  sch :: Schematic

text \<open>
  An exception is a value: \<open>ValueError\<close> and \<open>ZeroDivisionError\<close> with their
  messages, and \<open>OSError\<close> for what a write to the file system may raise.
\<close>

datatype error = ValueError string | OSError string | ZeroDivisionError string

section \<open>kicad\_utils.py\<close>

subsection \<open>find\_symbol, get\_symbol\_position, move\_symbol\<close>

text \<open>
  The inner loop of \<^verbatim>\<open>find_symbol\<close>: does some property of the symbol have the key
  \<^verbatim>\<open>"Reference"\<close> and the given value? (\<^verbatim>\<open>hasattr(symbol, 'properties')\<close> holds for
  every \<open>SchematicSymbol\<close>.)
\<close>

fun has_reference :: "Property list \<Rightarrow> string \<Rightarrow> bool" where
  "has_reference [] reference = False"
| "has_reference (prop # props) reference =
     (if key prop = ''Reference'' \<and> prop_value prop = reference then True
      else has_reference props reference)"

text \<open>
  The outer loop returns the first symbol that matches. The Python returns the object
  itself, which \<^verbatim>\<open>move_symbol\<close> then mutates in place; the model returns its index in
  \<^verbatim>\<open>sch.schematicSymbols\<close>, counted from \<open>i\<close>.
\<close>

fun find_symbol_from :: "nat \<Rightarrow> SchematicSymbol list \<Rightarrow> string \<Rightarrow> nat option" where
  "find_symbol_from i [] reference = None"
| "find_symbol_from i (symbol # symbols) reference =
     (if has_reference (properties symbol) reference then Some i
      else find_symbol_from (Suc i) symbols reference)"

definition find_symbol_index :: "editor \<Rightarrow> string \<Rightarrow> nat option" where
  "find_symbol_index self reference =
     find_symbol_from 0 (schematicSymbols (sch self)) reference"

definition find_symbol :: "editor \<Rightarrow> string \<Rightarrow> SchematicSymbol option" where
  "find_symbol self reference =
     (case find_symbol_index self reference of
        None \<Rightarrow> None
      | Some i \<Rightarrow> Some (schematicSymbols (sch self) ! i))"

text \<open>
  \<^verbatim>\<open>if symbol and hasattr(symbol, 'position')\<close>: a \<open>SchematicSymbol\<close> object is truthy
  and has a position, so the test is whether \<^verbatim>\<open>find_symbol\<close> found one.
\<close>

definition get_symbol_position :: "editor \<Rightarrow> string \<Rightarrow> (real \<times> real) option" where
  "get_symbol_position self reference =
     (case find_symbol self reference of
        None \<Rightarrow> None
      | Some symbol \<Rightarrow> Some (X (position symbol), Y (position symbol)))"

text \<open>\<^verbatim>\<open>move_symbol\<close> returns \<^verbatim>\<open>self\<close>: the editor after the assignment.\<close>

definition move_symbol :: "editor \<Rightarrow> string \<Rightarrow> real \<Rightarrow> real \<Rightarrow> editor" where
  "move_symbol self reference x y =
     (case find_symbol_index self reference of
        None \<Rightarrow> self
      | Some i \<Rightarrow>
          (let symbols = schematicSymbols (sch self);
               symbol = symbols ! i;
               symbol' = symbol\<lparr>position := (position symbol)\<lparr>X := x, Y := y\<rparr>\<rparr>
           in self\<lparr>sch := (sch self)\<lparr>schematicSymbols := symbols[i := symbol']\<rparr>\<rparr>))"

subsection \<open>add\_wire\<close>

text \<open>
  \<^verbatim>\<open>add_wire\<close> raises before it touches the document, or appends the new wire and
  returns it. The result pairs the outcome with the editor state the call leaves.
\<close>

definition add_wire ::
  "editor \<Rightarrow> string \<Rightarrow> (real \<times> real) list \<Rightarrow> (error + DrawnWire) \<times> editor" where
  "add_wire self new_uuid pts =
     (if length pts < 2 then (Inl (ValueError ''Wire needs at least 2 points''), self)
      else
        (let wire = \<lparr>points = map (\<lambda>(x, y). \<lparr>X = x, Y = y, angle = None\<rparr>) pts,
                     wire_uuid = new_uuid\<rparr>
         in (Inr wire, self\<lparr>sch := (sch self)\<lparr>wires := wires (sch self) @ [wire]\<rparr>\<rparr>)))"

subsection \<open>grid\_align\<close>





subsection \<open>Paths and files\<close>

text \<open>
  The part of \<^verbatim>\<open>pathlib\<close> the two modules call (CPython 3.8 to 3.13, POSIX flavour):
  \<^verbatim>\<open>name\<close>, \<^verbatim>\<open>suffix\<close>, \<^verbatim>\<open>with_suffix\<close> and \<^verbatim>\<open>str\<close>. The messages of the
  \<open>ValueError\<close>s of \<^verbatim>\<open>with_suffix\<close> are given without the \<^verbatim>\<open>repr\<close> of the offending
  value.
\<close>

definition path_name :: "Path \<Rightarrow> string" where
  "path_name p = (if parts p = [] then [] else last (parts p))"

text \<open>\<^verbatim>\<open>str.rfind\<close>: the index of the last occurrence, if there is one.\<close>

fun rfind :: "char \<Rightarrow> string \<Rightarrow> nat option" where
  "rfind c [] = None"
| "rfind c (x # xs) =
     (case rfind c xs of
        Some i \<Rightarrow> Some (Suc i)
      | None \<Rightarrow> if x = c then Some 0 else None)"

definition path_suffix :: "Path \<Rightarrow> string" where
  "path_suffix p =
     (let name = path_name p in
      case rfind (CHR ''.'') name of
        None \<Rightarrow> []
      | Some i \<Rightarrow> if 0 < i \<and> i < length name - 1 then drop i name else [])"

definition with_suffix :: "Path \<Rightarrow> string \<Rightarrow> error + Path" where
  "with_suffix p suffix =
     (if CHR ''/'' \<in> set suffix then Inl (ValueError ''Invalid suffix'')
      else if (suffix \<noteq> [] \<and> hd suffix \<noteq> CHR ''.'') \<or> suffix = ''.''
        then Inl (ValueError ''Invalid suffix'')
      else if path_name p = [] then Inl (ValueError ''has an empty name'')
      else
        (let name = path_name p;
             old_suffix = path_suffix p;
             name' = (if old_suffix = [] then name @ suffix
                      else take (length name - length old_suffix) name @ suffix)
         in Inr (p\<lparr>parts := butlast (parts p) @ [name']\<rparr>)))"

fun join_parts :: "string list \<Rightarrow> string" where
  "join_parts [] = []"
| "join_parts [x] = x"
| "join_parts (x # y # ys) = x @ ''/'' @ join_parts (y # ys)"

definition str_path :: "Path \<Rightarrow> string" where
  "str_path p =
     (let s = root p @ join_parts (parts p) in if s = [] then ''.'' else s)"

text \<open>\<^verbatim>\<open>str\<close> of a Python \<^verbatim>\<open>int\<close>, as the f-string of \<^verbatim>\<open>backup\<close> formats the counter.\<close>

definition digit :: "nat \<Rightarrow> char" where
  "digit d = ''0123456789'' ! d"

fun str_nat :: "nat \<Rightarrow> string" where
  "str_nat n = (if n < 10 then [digit n] else str_nat (n div 10) @ [digit (n mod 10)])"

declare str_nat.simps [simp del]

definition str_int :: "int \<Rightarrow> string" where
  "str_int i = (if i < 0 then CHR ''-'' # str_nat (nat (- i)) else str_nat (nat i))"

text \<open>
  \<^verbatim>\<open>Schematic.to_file(path)\<close> belongs to kiutils and to the file system under it. The
  operations that write take it as the argument \<open>to_file\<close>: from the schematic, the
  path string and the files as they are, it gives the outcome and the files it leaves.
\<close>

type_synonym 'w writer = "Schematic \<Rightarrow> string \<Rightarrow> 'w \<Rightarrow> (error + unit) \<times> 'w"

text \<open>
  Two file systems to run the operations in. A file holds a whole serialised schematic,
  or the beginning of one that a failed write left behind.
\<close>

datatype on_disk = Complete Schematic | Partial Schematic

type_synonym files = "string \<Rightarrow> on_disk option"

definition write_file :: "files writer" where
  "write_file s p w = (Inr (), w(p \<mapsto> Complete s))"

definition write_file_failing :: "files writer" where
  "write_file_failing s p w = (Inl (OSError ''No space left on device''), w(p \<mapsto> Partial s))"

subsection \<open>save\<close>

text \<open>\<^verbatim>\<open>kicad_utils.SchematicEditor.save\<close>; an exception ends the call where it is raised.\<close>

definition save :: "'w writer \<Rightarrow> editor \<Rightarrow> bool \<Rightarrow> 'w \<Rightarrow> (error + unit) \<times> editor \<times> 'w" where
  "save to_file self backup w =
     (if backup then
        (case with_suffix (path self) ''.bak.kicad_sch'' of
           Inl e \<Rightarrow> (Inl e, self, w)
         | Inr backup_path \<Rightarrow>
             (case to_file (sch self) (str_path backup_path) w of
                (Inl e, w') \<Rightarrow> (Inl e, self, w')
              | (Inr u, w') \<Rightarrow>
                  (case to_file (sch self) (str_path (path self)) w' of
                     (r, w'') \<Rightarrow> (r, self, w''))))
      else
        (case to_file (sch self) (str_path (path self)) w of
           (r, w') \<Rightarrow> (r, self, w')))"

section \<open>schematic\_editor.py\<close>

record session_editor = editor +
  backup_counter :: int
  components :: "string \<Rightarrow> SchematicSymbol option"
  nets :: "string \<Rightarrow> int option"

subsection \<open>The lookup tables\<close>

text \<open>
  \<^verbatim>\<open>_get_symbol_reference\<close>: the value of the first property whose key is
  \<^verbatim>\<open>"Reference"\<close>, with every double quote removed, or \<^verbatim>\<open>None\<close>.
\<close>

fun reference_of_properties :: "Property list \<Rightarrow> string option" where
  "reference_of_properties [] = None"
| "reference_of_properties (prop # props) =
     (if key prop = ''Reference'' then Some (filter (\<lambda>c. c \<noteq> CHR 0x22) (prop_value prop))
      else reference_of_properties props)"

definition get_symbol_reference :: "SchematicSymbol \<Rightarrow> string option" where
  "get_symbol_reference symbol = reference_of_properties (properties symbol)"

text \<open>
  The loop of \<^verbatim>\<open>_build_component_map\<close>; \<^verbatim>\<open>if ref:\<close> skips \<^verbatim>\<open>None\<close> and the empty string.
\<close>

fun build_component_loop ::
  "(string \<Rightarrow> SchematicSymbol option) \<Rightarrow> SchematicSymbol list \<Rightarrow> (string \<Rightarrow> SchematicSymbol option)" where
  "build_component_loop m [] = m"
| "build_component_loop m (symbol # symbols) =
     (case get_symbol_reference symbol of
        None \<Rightarrow> build_component_loop m symbols
      | Some ref \<Rightarrow>
          if ref = [] then build_component_loop m symbols
          else build_component_loop (m(ref \<mapsto> symbol)) symbols)"

definition build_component_map :: "'a session_editor_scheme \<Rightarrow> 'a session_editor_scheme" where
  "build_component_map self =
     self\<lparr>components := build_component_loop Map.empty (schematicSymbols (sch self))\<rparr>"

text \<open>\<^verbatim>\<open>_build_net_map\<close> sets \<^verbatim>\<open>self.nets = {}\<close> and does nothing else.\<close>

definition build_net_map :: "'a session_editor_scheme \<Rightarrow> 'a session_editor_scheme" where
  "build_net_map self = self\<lparr>nets := Map.empty\<rparr>"

text \<open>
  \<^verbatim>\<open>__init__\<close>; \<open>loaded\<close> is what \<^verbatim>\<open>Schematic.from_file\<close> read at the path.
\<close>

definition init :: "Path \<Rightarrow> Schematic \<Rightarrow> session_editor" where
  "init schematic_path loaded =
     build_net_map (build_component_map
       \<lparr>path = schematic_path, sch = loaded, backup_counter = 0,
        components = Map.empty, nets = Map.empty\<rparr>)"

text \<open>
  \<^verbatim>\<open>_get_symbol_pins\<close> returns the list it has just created, for every symbol. Its
  elements would be pins with their positions.
\<close>

definition get_symbol_pins :: "session_editor \<Rightarrow> SchematicSymbol \<Rightarrow> (string \<times> Position) list" where
  "get_symbol_pins self symbol = []"

subsection \<open>backup and save\<close>

definition backup :: "'w writer \<Rightarrow> session_editor \<Rightarrow> 'w \<Rightarrow> (error + unit) \<times> session_editor \<times> 'w" where
  "backup to_file self w =
     (let self = self\<lparr>backup_counter := backup_counter self + 1\<rparr> in
      case with_suffix (path self) (''.bak'' @ str_int (backup_counter self) @ ''.kicad_sch'') of
        Inl e \<Rightarrow> (Inl e, self, w)
      | Inr backup_path \<Rightarrow>
          (case to_file (sch self) (str_path backup_path) w of
             (r, w') \<Rightarrow> (r, self, w')))"

definition save_session :: "'w writer \<Rightarrow> session_editor \<Rightarrow> 'w \<Rightarrow> (error + unit) \<times> session_editor \<times> 'w" where
  "save_session to_file self w =
     (case to_file (sch self) (str_path (path self)) w of
        (r, w') \<Rightarrow> (r, self, w'))"

subsection \<open>connect\_pins, wire\_stepper\_driver, list\_unconnected\<close>

text \<open>\<^verbatim>\<open>str.split(sep)\<close> for a separator of one character.\<close>

fun str_split :: "char \<Rightarrow> string \<Rightarrow> string list" where
  "str_split sep [] = [[]]"
| "str_split sep (x # xs) =
     (if x = sep then [] # str_split sep xs
      else (x # hd (str_split sep xs)) # tl (str_split sep xs))"

text \<open>
  The assignment \<^verbatim>\<open>a, b = values\<close> raises \<open>ValueError\<close> unless there are exactly two
  values.
\<close>

definition unpack2 :: "string list \<Rightarrow> error + (string \<times> string)" where
  "unpack2 vs =
     (case vs of
        [a, b] \<Rightarrow> Inr (a, b)
      | _ \<Rightarrow>
          if length vs < 2
          then Inl (ValueError (''not enough values to unpack (expected 2, got '' @
                                 str_int (int (length vs)) @ '')''))
          else Inl (ValueError ''too many values to unpack (expected 2)''))"

text \<open>
  \<^verbatim>\<open>connect_pins\<close> parses the two pin specifications and prints; it assigns nothing.
\<close>

definition connect_pins :: "session_editor \<Rightarrow> string \<Rightarrow> string \<Rightarrow> (error + unit) \<times> session_editor" where
  "connect_pins self pin1 pin2 =
     (case unpack2 (str_split (CHR ''.'') pin1) of
        Inl e \<Rightarrow> (Inl e, self)
      | Inr (ref1, pinname1) \<Rightarrow>
          (case unpack2 (str_split (CHR ''.'') pin2) of
             Inl e \<Rightarrow> (Inl e, self)
           | Inr (ref2, pinname2) \<Rightarrow> (Inr (), self)))"

text \<open>One statement after another: the second runs only if the first did not raise.\<close>

definition and_then ::
  "(error + unit) \<times> 's \<Rightarrow> ('s \<Rightarrow> (error + unit) \<times> 's) \<Rightarrow> (error + unit) \<times> 's" where
  "and_then r f = (case r of (Inl e, s) \<Rightarrow> (Inl e, s) | (Inr u, s) \<Rightarrow> f s)"

definition wire_stepper_driver ::
  "session_editor \<Rightarrow> string \<Rightarrow> string \<Rightarrow> string \<Rightarrow> string \<Rightarrow> (error + unit) \<times> session_editor" where
  "wire_stepper_driver self driver_ref step_pin dir_pin enable_pin =
     and_then (connect_pins self (driver_ref @ ''.VDD'') ''+3V3'') (\<lambda>self.
     and_then (connect_pins self (driver_ref @ ''.VMOT'') ''StepperPower1.1'') (\<lambda>self.
     and_then (connect_pins self (driver_ref @ ''.GND'') ''GND'') (\<lambda>self.
     and_then (connect_pins self (driver_ref @ ''.STEP'') step_pin) (\<lambda>self.
     and_then (connect_pins self (driver_ref @ ''.DIR'') dir_pin) (\<lambda>self.
     and_then (connect_pins self (driver_ref @ ''.~ENABLE'') enable_pin) (\<lambda>self.
     and_then (connect_pins self (driver_ref @ ''.~RESET'') ''+3V3'') (\<lambda>self.
     connect_pins self (driver_ref @ ''.~SLEEP'') ''+3V3'')))))))"

text \<open>
  \<^verbatim>\<open>list_unconnected\<close> prints a heading and falls off its end: the call returns
  \<^verbatim>\<open>None\<close>, here \<open>None\<close>, whatever the state, where a sequence of (reference, pin name)
  pairs would be \<open>Some\<close> of it.
\<close>

definition list_unconnected :: "session_editor \<Rightarrow> (string \<times> string) list option" where
  "list_unconnected self = None"

section \<open>A document to run the operations on\<close>

text \<open>
  The two symbols of \<^verbatim>\<open>example_add_led.py\<close>, as \<^verbatim>\<open>add_symbol\<close> builds them: an LED
  \<^verbatim>\<open>D1\<close> at (100, 100) and a resistor \<^verbatim>\<open>R1\<close> at (100, 90), each with its reference
  property 2.54 above it.
\<close>

definition led_symbol :: SchematicSymbol where
  "led_symbol =
     \<lparr>libraryIdentifier = ''Device:LED'',
      position = \<lparr>X = 100, Y = 100, angle = Some 0\<rparr>,
      unit = 1, uuid = ''0a1b'',
      properties = [\<lparr>key = ''Reference'', prop_value = ''D1'',
                     prop_position = \<lparr>X = 100, Y = 97.46, angle = None\<rparr>\<rparr>]\<rparr>"

definition resistor_symbol :: SchematicSymbol where
  "resistor_symbol =
     \<lparr>libraryIdentifier = ''Device:R'',
      position = \<lparr>X = 100, Y = 90, angle = Some 0\<rparr>,
      unit = 1, uuid = ''2c3d'',
      properties = [\<lparr>key = ''Reference'', prop_value = ''R1'',
                     prop_position = \<lparr>X = 100, Y = 87.46, angle = None\<rparr>\<rparr>]\<rparr>"

definition example_schematic :: Schematic where
  "example_schematic =
     \<lparr>schematicSymbols = [led_symbol, resistor_symbol], wires = [], junctions = [],
      labels = [], globalLabels = []\<rparr>"

definition example_path :: Path where
  "example_path = \<lparr>root = ''/'', parts = [''holes'', ''holes.kicad_sch'']\<rparr>"

definition example_editor :: editor where
  "example_editor = \<lparr>path = example_path, sch = example_schematic\<rparr>"

definition example_session :: session_editor where
  "example_session = init example_path example_schematic"

text \<open>
  The sibling path the spec describes: the last suffix of the name is replaced by
  \<open>mark\<close> followed by \<^verbatim>\<open>.kicad_sch\<close>, so that for a path ending in \<^verbatim>\<open>.kicad_sch\<close> the
  mark stands before the extension. The backup operations are compared with it below.
\<close>

definition bak_sibling :: "Path \<Rightarrow> string \<Rightarrow> Path" where
  "bak_sibling p mark =
     p\<lparr>parts := butlast (parts p) @
        [take (length (path_name p) - length (path_suffix p)) (path_name p) @
         mark @ ''.kicad_sch'']\<rparr>"

text \<open>A disk with no file on it.\<close>

definition no_files :: files where
  "no_files = Map.empty"

text \<open>
  The example editor after the first \<^verbatim>\<open>add_wire\<close> of \<^verbatim>\<open>example_add_led.py\<close>, and the
  disk after \<^verbatim>\<open>save()\<close> of the example editor on the empty disk (every write succeeds).
\<close>

definition edited_editor :: editor where
  "edited_editor = snd (add_wire example_editor ''4e5f'' [(100, 92.54), (100, 97.46)])"

definition disk_after_first_save :: files where
  "disk_after_first_save = snd (snd (save write_file example_editor True no_files))"

section \<open>Properties of kicad\_utils.py\<close>

subsection \<open>Looking a symbol up\<close>

lemma has_reference_iff:
  "has_reference props reference \<longleftrightarrow>
     (\<exists>p \<in> set props. key p = ''Reference'' \<and> prop_value p = reference)"
  by (induction props) auto

lemma find_symbol_from_None:
  "find_symbol_from i symbols reference = None \<longleftrightarrow>
     (\<forall>s \<in> set symbols. \<not> has_reference (properties s) reference)"
  by (induction symbols arbitrary: i) auto

lemma find_symbol_from_Some:
  "find_symbol_from i symbols reference = Some k \<Longrightarrow>
     i \<le> k \<and> k - i < length symbols \<and>
     has_reference (properties (symbols ! (k - i))) reference \<and>
     (\<forall>j < k - i. \<not> has_reference (properties (symbols ! j)) reference)"
proof (induction symbols arbitrary: i)
  case Nil
  then show ?case by simp
next
  case (Cons s symbols)
  show ?case
  proof (cases "has_reference (properties s) reference")
    case True
    with Cons.prems show ?thesis by simp
  next
    case False
    with Cons.prems have rec: "find_symbol_from (Suc i) symbols reference = Some k" by simp
    from Cons.IH [OF rec] have ih: "Suc i \<le> k" "k - Suc i < length symbols"
      "has_reference (properties (symbols ! (k - Suc i))) reference"
      "\<forall>j < k - Suc i. \<not> has_reference (properties (symbols ! j)) reference" by auto
    from ih(1) have eq: "k - i = Suc (k - Suc i)" by simp
    show ?thesis
      using ih False unfolding eq by (auto simp: less_Suc_eq_0_disj)
  qed
qed

lemma find_symbol_index_None:
  "find_symbol_index self reference = None \<longleftrightarrow>
     \<not> (\<exists>s \<in> set (schematicSymbols (sch self)).
          \<exists>p \<in> set (properties s). key p = ''Reference'' \<and> prop_value p = reference)"
  by (simp add: find_symbol_index_def find_symbol_from_None has_reference_iff)

lemma find_symbol_index_Some:
  assumes "find_symbol_index self reference = Some i"
  shows "i < length (schematicSymbols (sch self))"
    and "has_reference (properties (schematicSymbols (sch self) ! i)) reference"
    and "\<forall>j < i. \<not> has_reference (properties (schematicSymbols (sch self) ! j)) reference"
  using find_symbol_from_Some [of 0 "schematicSymbols (sch self)" reference i] assms
  by (simp_all add: find_symbol_index_def)

lemma find_symbol_None: "find_symbol self reference = None \<longleftrightarrow> find_symbol_index self reference = None"
  by (simp add: find_symbol_def split: option.splits)

lemma find_symbol_index_first:
  assumes "find_symbol_index self reference = Some i"
  shows "\<exists>p \<in> set (properties (schematicSymbols (sch self) ! i)).
           key p = ''Reference'' \<and> prop_value p = reference"
    and "\<forall>j < i. \<not> (\<exists>p \<in> set (properties (schematicSymbols (sch self) ! j)).
           key p = ''Reference'' \<and> prop_value p = reference)"
  using find_symbol_index_Some [OF assms] by (simp_all add: has_reference_iff)

subsection \<open>Resolving a pin\<close>

text \<open>
  Claim C1, as amended. The code has no \<^verbatim>\<open>ComponentNotFound\<close> and no \<^verbatim>\<open>PinNotFound\<close>, no
  pin table and no rotation transform. When no symbol has a \<^verbatim>\<open>Reference\<close> property with
  the given value, \<^verbatim>\<open>find_symbol\<close> and \<^verbatim>\<open>get_symbol_position\<close> return \<^verbatim>\<open>None\<close> and raise
  nothing. When some symbol has one, \<^verbatim>\<open>find_symbol\<close> returns the first such symbol of
  the document (no symbol before it has one) and \<^verbatim>\<open>get_symbol_position\<close> returns its
  stored \<open>(X, Y)\<close> as it is. Whatever symbol \<^verbatim>\<open>find_symbol\<close> returns is a symbol of the
  document with such a property, and \<^verbatim>\<open>_get_symbol_pins\<close> gives the empty list for it: no
  pin is declared.
\<close>

theorem find_symbol_lookup:
  "(\<not> (\<exists>s \<in> set (schematicSymbols (sch self)).
         \<exists>p \<in> set (properties s). key p = ''Reference'' \<and> prop_value p = reference) \<longrightarrow>
      find_symbol self reference = None \<and> get_symbol_position self reference = None) \<and>
   (\<forall>symbol. find_symbol self reference = Some symbol \<longrightarrow>
      symbol \<in> set (schematicSymbols (sch self)) \<and>
      (\<exists>p \<in> set (properties symbol). key p = ''Reference'' \<and> prop_value p = reference) \<and>
      get_symbol_position self reference = Some (X (position symbol), Y (position symbol)) \<and>
      get_symbol_pins session symbol = []) \<and>
   ((\<exists>s \<in> set (schematicSymbols (sch self)).
         \<exists>p \<in> set (properties s). key p = ''Reference'' \<and> prop_value p = reference) \<longrightarrow>
      (\<exists>i < length (schematicSymbols (sch self)).
         find_symbol self reference = Some (schematicSymbols (sch self) ! i) \<and>
         (\<exists>p \<in> set (properties (schematicSymbols (sch self) ! i)).
            key p = ''Reference'' \<and> prop_value p = reference) \<and>
         (\<forall>j < i. \<not> (\<exists>p \<in> set (properties (schematicSymbols (sch self) ! j)).
            key p = ''Reference'' \<and> prop_value p = reference)) \<and>
         get_symbol_position self reference =
           Some (X (position (schematicSymbols (sch self) ! i)),
                 Y (position (schematicSymbols (sch self) ! i)))))"
proof (intro conjI allI impI)
  assume "\<not> (\<exists>s \<in> set (schematicSymbols (sch self)).
         \<exists>p \<in> set (properties s). key p = ''Reference'' \<and> prop_value p = reference)"
  then have "find_symbol_index self reference = None"
    using find_symbol_index_None [of self reference] by blast
  then show none: "find_symbol self reference = None" by (simp add: find_symbol_None)
  then show "get_symbol_position self reference = None" by (simp add: get_symbol_position_def)
next
  fix symbol
  assume found: "find_symbol self reference = Some symbol"
  then obtain i where idx: "find_symbol_index self reference = Some i"
    and sym: "symbol = schematicSymbols (sch self) ! i"
    by (auto simp: find_symbol_def split: option.splits)
  from find_symbol_index_Some [OF idx] sym
  show "symbol \<in> set (schematicSymbols (sch self))"
    and "\<exists>p \<in> set (properties symbol). key p = ''Reference'' \<and> prop_value p = reference"
    by (simp_all add: has_reference_iff)
  from found show "get_symbol_position self reference = Some (X (position symbol), Y (position symbol))"
    by (simp add: get_symbol_position_def)
  show "get_symbol_pins session symbol = []" by (simp add: get_symbol_pins_def)
next
  assume "\<exists>s \<in> set (schematicSymbols (sch self)).
         \<exists>p \<in> set (properties s). key p = ''Reference'' \<and> prop_value p = reference"
  then have "find_symbol_index self reference \<noteq> None"
    using find_symbol_index_None [of self reference] by blast
  then obtain i where idx: "find_symbol_index self reference = Some i" by auto
  then have found: "find_symbol self reference = Some (schematicSymbols (sch self) ! i)"
    by (simp add: find_symbol_def)
  then have "get_symbol_position self reference =
           Some (X (position (schematicSymbols (sch self) ! i)),
                 Y (position (schematicSymbols (sch self) ! i)))"
    by (simp add: get_symbol_position_def)
  with found find_symbol_index_Some(1) [OF idx] find_symbol_index_first [OF idx]
  show "\<exists>i < length (schematicSymbols (sch self)).
         find_symbol self reference = Some (schematicSymbols (sch self) ! i) \<and>
         (\<exists>p \<in> set (properties (schematicSymbols (sch self) ! i)).
            key p = ''Reference'' \<and> prop_value p = reference) \<and>
         (\<forall>j < i. \<not> (\<exists>p \<in> set (properties (schematicSymbols (sch self) ! j)).
            key p = ''Reference'' \<and> prop_value p = reference)) \<and>
         get_symbol_position self reference =
           Some (X (position (schematicSymbols (sch self) ! i)),
                 Y (position (schematicSymbols (sch self) ! i)))"
    by blast
qed

lemma example_lookups:
  "find_symbol_index example_editor ''U7'' = None"
  "find_symbol_index example_editor ''R1'' = Some 1"
  by (simp_all add: find_symbol_index_def example_editor_def example_schematic_def
        led_symbol_def resistor_symbol_def)

text \<open>On the example document: \<^verbatim>\<open>U7\<close> is absent, \<^verbatim>\<open>R1\<close> is the resistor at (100, 90).\<close>

theorem find_symbol_lookup_witness:
  "find_symbol example_editor ''U7'' = None \<and>
   get_symbol_position example_editor ''U7'' = None \<and>
   find_symbol example_editor ''R1'' = Some resistor_symbol \<and>
   get_symbol_position example_editor ''R1'' = Some (100, 90) \<and>
   get_symbol_pins example_session resistor_symbol = []"
  using find_symbol_lookup [of example_editor "''U7''" example_session]
    find_symbol_lookup [of example_editor "''R1''" example_session]
  by (simp add: find_symbol_def example_lookups)
     (simp add: example_editor_def example_schematic_def led_symbol_def resistor_symbol_def)

text \<open>
  Claim C1 as stated fails on the example document: for the absent \<^verbatim>\<open>U7\<close> the lookups
  return \<^verbatim>\<open>None\<close> where the claim has them fail with \<^verbatim>\<open>ComponentNotFound\<close>, and the
  resistor \<^verbatim>\<open>R1\<close>, which is found, has no pin to look a name up in.
\<close>

theorem resolve_pin_counterexample:
  "find_symbol example_editor ''U7'' = None \<and>
   get_symbol_position example_editor ''U7'' = None \<and>
   find_symbol example_editor ''R1'' = Some resistor_symbol \<and>
   get_symbol_pins example_session resistor_symbol = []"
  by (simp add: find_symbol_def get_symbol_position_def example_lookups get_symbol_pins_def)
     (simp add: example_editor_def example_schematic_def)

subsection \<open>move\_symbol\<close>

text \<open>
  Claim C10. When no symbol of the document has a property \<^verbatim>\<open>Reference\<close> with the given
  value, \<^verbatim>\<open>find_symbol\<close> finds nothing and \<^verbatim>\<open>move_symbol\<close> returns the editor as it
  was: nothing is raised and no symbol, wire, junction or label changes. When some
  symbol has one, the lookup gives an index \<open>i\<close>; the symbol at \<open>i\<close> has the reference and
  no symbol before it has, it gets \<open>X = x\<close> and \<open>Y = y\<close> and keeps its angle, and every
  other symbol, the wires, junctions, labels and the path stay as they were.
\<close>

theorem move_symbol_frame:
  "(\<not> (\<exists>s \<in> set (schematicSymbols (sch self)).
         \<exists>p \<in> set (properties s). key p = ''Reference'' \<and> prop_value p = reference) \<longrightarrow>
      find_symbol self reference = None \<and> move_symbol self reference x y = self) \<and>
   ((\<exists>s \<in> set (schematicSymbols (sch self)).
         \<exists>p \<in> set (properties s). key p = ''Reference'' \<and> prop_value p = reference) \<longrightarrow>
      (\<exists>i. find_symbol_index self reference = Some i)) \<and>
   (\<forall>i. find_symbol_index self reference = Some i \<longrightarrow>
      i < length (schematicSymbols (sch self)) \<and>
      (\<exists>p \<in> set (properties (schematicSymbols (sch self) ! i)).
         key p = ''Reference'' \<and> prop_value p = reference) \<and>
      (\<forall>j < i. \<not> (\<exists>p \<in> set (properties (schematicSymbols (sch self) ! j)).
         key p = ''Reference'' \<and> prop_value p = reference)) \<and>
      find_symbol self reference = Some (schematicSymbols (sch self) ! i) \<and>
      move_symbol self reference x y =
        self\<lparr>sch := (sch self)\<lparr>schematicSymbols := (schematicSymbols (sch self))
          [i := (schematicSymbols (sch self) ! i)
                  \<lparr>position := \<lparr>X = x, Y = y,
                                 angle = angle (position (schematicSymbols (sch self) ! i))\<rparr>\<rparr>]\<rparr>\<rparr> \<and>
      (\<forall>j < length (schematicSymbols (sch self)). j \<noteq> i \<longrightarrow>
         schematicSymbols (sch (move_symbol self reference x y)) ! j =
         schematicSymbols (sch self) ! j) \<and>
      wires (sch (move_symbol self reference x y)) = wires (sch self) \<and>
      junctions (sch (move_symbol self reference x y)) = junctions (sch self) \<and>
      labels (sch (move_symbol self reference x y)) = labels (sch self) \<and>
      globalLabels (sch (move_symbol self reference x y)) = globalLabels (sch self) \<and>
      path (move_symbol self reference x y) = path self)"
proof (intro conjI allI impI)
  assume "\<not> (\<exists>s \<in> set (schematicSymbols (sch self)).
         \<exists>p \<in> set (properties s). key p = ''Reference'' \<and> prop_value p = reference)"
  then have none: "find_symbol_index self reference = None"
    using find_symbol_index_None [of self reference] by blast
  then show "find_symbol self reference = None"
    by (simp add: find_symbol_None)
  from none show "move_symbol self reference x y = self"
    by (simp add: move_symbol_def)
next
  assume "\<exists>s \<in> set (schematicSymbols (sch self)).
         \<exists>p \<in> set (properties s). key p = ''Reference'' \<and> prop_value p = reference"
  then have "find_symbol_index self reference \<noteq> None"
    using find_symbol_index_None [of self reference] by blast
  then show "\<exists>i. find_symbol_index self reference = Some i" by auto
next
  fix i
  assume idx: "find_symbol_index self reference = Some i"
  then show lt: "i < length (schematicSymbols (sch self))"
    by (rule find_symbol_index_Some)
  from idx show "\<exists>p \<in> set (properties (schematicSymbols (sch self) ! i)).
         key p = ''Reference'' \<and> prop_value p = reference"
    by (rule find_symbol_index_first)
  from idx show "find_symbol self reference = Some (schematicSymbols (sch self) ! i)"
    by (simp add: find_symbol_def)
  have pos: "(position s)\<lparr>X := x, Y := y\<rparr> = \<lparr>X = x, Y = y, angle = angle (position s)\<rparr>" for s
    by simp
  from idx show mv: "move_symbol self reference x y =
        self\<lparr>sch := (sch self)\<lparr>schematicSymbols := (schematicSymbols (sch self))
          [i := (schematicSymbols (sch self) ! i)
                  \<lparr>position := \<lparr>X = x, Y = y,
                                 angle = angle (position (schematicSymbols (sch self) ! i))\<rparr>\<rparr>]\<rparr>\<rparr>"
    by (simp add: move_symbol_def Let_def pos)
  show "wires (sch (move_symbol self reference x y)) = wires (sch self)"
    "junctions (sch (move_symbol self reference x y)) = junctions (sch self)"
    "labels (sch (move_symbol self reference x y)) = labels (sch self)"
    "globalLabels (sch (move_symbol self reference x y)) = globalLabels (sch self)"
    "path (move_symbol self reference x y) = path self"
    unfolding mv by simp_all
  fix j
  assume "j < length (schematicSymbols (sch self))" "j \<noteq> i"
  then show "schematicSymbols (sch (move_symbol self reference x y)) ! j =
         schematicSymbols (sch self) ! j"
    unfolding mv by simp
next
  fix i j
  assume "find_symbol_index self reference = Some i" and "j < i"
  then show "\<not> (\<exists>p \<in> set (properties (schematicSymbols (sch self) ! j)).
         key p = ''Reference'' \<and> prop_value p = reference)"
    using find_symbol_index_first(2) [of self reference i] by blast
qed

text \<open>
  On the example document: \<^verbatim>\<open>U7\<close> is not there and the move changes nothing;
  \<^verbatim>\<open>R1\<close> is the second symbol and moves to (50, 60).
\<close>

theorem move_symbol_frame_witness:
  "find_symbol example_editor ''U7'' = None \<and>
   move_symbol example_editor ''U7'' 50 60 = example_editor \<and>
   find_symbol_index example_editor ''R1'' = Some 1 \<and>
   schematicSymbols (sch (move_symbol example_editor ''R1'' 50 60)) =
     [led_symbol, resistor_symbol\<lparr>position := \<lparr>X = 50, Y = 60, angle = Some 0\<rparr>\<rparr>] \<and>
   wires (sch (move_symbol example_editor ''R1'' 50 60)) = []"
  using move_symbol_frame [of example_editor "''U7''" 50 60]
    move_symbol_frame [of example_editor "''R1''" 50 60]
  by (simp add: find_symbol_index_def example_editor_def example_schematic_def
        led_symbol_def resistor_symbol_def)

subsection \<open>add\_wire\<close>

text \<open>
  Claim C5. \<^verbatim>\<open>add_wire\<close> raises exactly when the list has fewer than two points; the
  error is the \<open>ValueError\<close> with the message \<^verbatim>\<open>Wire needs at least 2 points\<close> (the
  spec's \<^verbatim>\<open>InvalidWireSpec\<close>), and the editor it leaves is the one it was given, so the
  wires are unchanged. With two points or more it appends exactly one wire, whose
  points carry the given coordinates in the given order.
\<close>

theorem add_wire_spec:
  "(isl (fst (add_wire self new_uuid pts)) \<longleftrightarrow> length pts < 2) \<and>
   (length pts < 2 \<longrightarrow>
      add_wire self new_uuid pts = (Inl (ValueError ''Wire needs at least 2 points''), self)) \<and>
   (2 \<le> length pts \<longrightarrow>
      (\<exists>wire. add_wire self new_uuid pts =
                (Inr wire, self\<lparr>sch := (sch self)\<lparr>wires := wires (sch self) @ [wire]\<rparr>\<rparr>) \<and>
              map (\<lambda>p. (X p, Y p)) (points wire) = pts))"
  by (auto simp: add_wire_def Let_def comp_def case_prod_unfold)

text \<open>
  A wire of one point is refused and the wires stay empty; the first wire of
  \<^verbatim>\<open>example_add_led.py\<close> is appended.
\<close>

theorem add_wire_spec_witness:
  "add_wire example_editor ''4e5f'' [(100, 92.54)] =
     (Inl (ValueError ''Wire needs at least 2 points''), example_editor) \<and>
   wires (sch (snd (add_wire example_editor ''4e5f'' [(100, 92.54)]))) = [] \<and>
   wires (sch (snd (add_wire example_editor ''4e5f'' [(100, 92.54), (100, 97.46)]))) =
     [\<lparr>points = [\<lparr>X = 100, Y = 92.54, angle = None\<rparr>, \<lparr>X = 100, Y = 97.46, angle = None\<rparr>],
       wire_uuid = ''4e5f''\<rparr>]"
  using add_wire_spec [of example_editor "''4e5f''" "[(100, 92.54)]"]
    add_wire_spec [of example_editor "''4e5f''" "[(100, 92.54), (100, 97.46)]"]
  by (simp add: add_wire_def example_editor_def example_schematic_def Let_def)

subsection \<open>grid\_align\<close>




























subsection \<open>Decimal strings and sibling paths\<close>

lemma digit_cases:
  "d < 10 \<Longrightarrow> d = 0 \<or> d = 1 \<or> d = 2 \<or> d = 3 \<or> d = 4 \<or> d = 5 \<or> d = 6 \<or> d = 7 \<or> d = 8 \<or> d = (9::nat)"
  by arith

lemma digit_inj: "d < 10 \<Longrightarrow> e < 10 \<Longrightarrow> digit d = digit e \<Longrightarrow> d = e"
  using digit_cases [of d] digit_cases [of e] by (auto simp: digit_def)

lemma digit_not_special: "d < 10 \<Longrightarrow> digit d \<noteq> CHR ''/'' \<and> digit d \<noteq> CHR ''-''"
  using digit_cases [of d] by (auto simp: digit_def)

lemma str_nat_nonempty: "str_nat n \<noteq> []"
  by (subst str_nat.simps) simp

lemma last_str_nat: "last (str_nat n) = digit (n mod 10)"
  by (subst str_nat.simps) simp

lemma butlast_str_nat: "butlast (str_nat n) = (if n < 10 then [] else str_nat (n div 10))"
  by (subst str_nat.simps) simp

lemma str_nat_inj: "str_nat m = str_nat n \<Longrightarrow> m = n"
proof (induction m arbitrary: n rule: str_nat.induct)
  case (1 m)
  from "1.prems" have l: "digit (m mod 10) = digit (n mod 10)"
    using last_str_nat [of m] last_str_nat [of n] by simp
  then have mod_eq: "m mod 10 = n mod 10"
    by (intro digit_inj) simp_all
  from "1.prems" have b: "butlast (str_nat m) = butlast (str_nat n)" by simp
  show ?case
  proof (cases "m < 10")
    case True
    with b have "n < 10"
      using str_nat_nonempty [of "n div 10"]
      by (auto simp add: butlast_str_nat split: if_splits)
    with True mod_eq show ?thesis by simp
  next
    case False
    with b have n: "\<not> n < 10" and eq: "str_nat (m div 10) = str_nat (n div 10)"
      using str_nat_nonempty [of "n div 10"] str_nat_nonempty [of "m div 10"]
      by (auto simp add: butlast_str_nat split: if_splits)
    from "1.IH" [OF False eq] have "m div 10 = n div 10" .
    with mod_eq show ?thesis
      by (metis div_mult_mod_eq)
  qed
qed

lemma hd_str_nat: "hd (str_nat n) \<noteq> CHR ''-''"
proof (induction n rule: str_nat.induct)
  case (1 n)
  show ?case
  proof (cases "n < 10")
    case True
    then show ?thesis using digit_not_special [of n] by (subst str_nat.simps) simp
  next
    case False
    then show ?thesis using "1.IH" str_nat_nonempty [of "n div 10"]
      by (subst str_nat.simps) simp
  qed
qed

lemma str_int_inj: "str_int a = str_int b \<Longrightarrow> a = b"
proof -
  assume eq: "str_int a = str_int b"
  have neg: "str_nat k \<noteq> CHR ''-'' # xs" for k xs
    using hd_str_nat [of k] by (cases "str_nat k") auto
  show ?thesis
  proof (cases "a < 0"; cases "b < 0")
    assume "a < 0" "b < 0"
    with eq have "nat (- a) = nat (- b)" by (simp add: str_int_def str_nat_inj)
    with \<open>a < 0\<close> \<open>b < 0\<close> show ?thesis by simp
  next
    assume "a < 0" "\<not> b < 0"
    with eq neg [of "nat b" "str_nat (nat (- a))"] show ?thesis by (simp add: str_int_def)
  next
    assume "\<not> a < 0" "b < 0"
    with eq neg [of "nat a" "str_nat (nat (- b))"] show ?thesis by (simp add: str_int_def)
  next
    assume "\<not> a < 0" "\<not> b < 0"
    with eq have "nat a = nat b" by (simp add: str_int_def str_nat_inj)
    with \<open>\<not> a < 0\<close> \<open>\<not> b < 0\<close> show ?thesis by simp
  qed
qed

lemma set_str_nat: "CHR ''/'' \<notin> set (str_nat n)"
proof (induction n rule: str_nat.induct)
  case (1 n)
  show ?case
  proof (cases "n < 10")
    case True
    then show ?thesis using digit_not_special [of n] by (subst str_nat.simps) auto
  next
    case False
    then show ?thesis using "1.IH" digit_not_special [of "n mod 10"]
      by (subst str_nat.simps) auto
  qed
qed

lemma set_str_int: "CHR ''/'' \<notin> set (str_int i)"
  by (simp add: str_int_def set_str_nat)

lemma str_int_small: "str_int 1 = ''1''" "str_int 2 = ''2''"
  by (simp_all add: str_int_def digit_def str_nat.simps [of "Suc 0"] str_nat.simps [of 2])

lemma with_suffix_kicad_sch:
  assumes "path_name p \<noteq> []" and "CHR ''/'' \<notin> set mark" and "hd (mark @ ''.kicad_sch'') = CHR ''.''"
  shows "with_suffix p (mark @ ''.kicad_sch'') = Inr (bak_sibling p mark)"
proof -
  have "mark @ ''.kicad_sch'' \<noteq> ''.''" by (cases mark) auto
  with assms show ?thesis
    by (auto simp: with_suffix_def bak_sibling_def Let_def)
qed

lemma with_suffix_bak:
  "path_name p \<noteq> [] \<Longrightarrow>
   with_suffix p (''.bak'' @ str_int n @ ''.kicad_sch'') = Inr (bak_sibling p (''.bak'' @ str_int n))"
  using with_suffix_kicad_sch [of p "''.bak'' @ str_int n"] by (simp add: set_str_int)

lemma with_suffix_bak_fixed:
  "path_name p \<noteq> [] \<Longrightarrow> with_suffix p ''.bak.kicad_sch'' = Inr (bak_sibling p ''.bak'')"
  using with_suffix_kicad_sch [of p "''.bak''"] by simp

lemma join_parts_snoc:
  "join_parts (xs @ [n]) = concat (map (\<lambda>x. x @ ''/'') xs) @ n"
  by (induction xs rule: join_parts.induct) auto

lemma str_path_bak_sibling:
  "str_path (bak_sibling p mark) =
     root p @ concat (map (\<lambda>x. x @ ''/'') (butlast (parts p))) @
     take (length (path_name p) - length (path_suffix p)) (path_name p) @ mark @ ''.kicad_sch''"
  by (simp add: str_path_def bak_sibling_def join_parts_snoc Let_def)

lemma str_path_bak_sibling_inj:
  "str_path (bak_sibling p (''.bak'' @ str_int m)) = str_path (bak_sibling p (''.bak'' @ str_int n))
     \<longleftrightarrow> m = n"
  by (auto simp: str_path_bak_sibling dest: str_int_inj)

lemma backup_counter_init: "backup_counter (init p loaded) = 0"
  by (simp add: init_def build_net_map_def build_component_map_def)

lemma example_path_name:
  "path_name example_path = ''holes.kicad_sch''"
  "path_suffix example_path = ''.kicad_sch''"
  "str_path example_path = ''/holes/holes.kicad_sch''"
  by (simp_all add: path_name_def path_suffix_def str_path_def example_path_def Let_def)

lemma example_path_sibling:
  "str_path (bak_sibling example_path mark) = ''/holes/holes'' @ mark @ ''.kicad_sch''"
  by (simp add: str_path_bak_sibling example_path_name) (simp add: example_path_def)

lemmas example_path_facts = example_path_name example_path_sibling

lemma example_session_fields:
  "path example_session = example_path" "sch example_session = example_schematic"
  "backup_counter example_session = 0"
  by (simp_all add: example_session_def init_def build_net_map_def build_component_map_def)

subsection \<open>Backups\<close>

text \<open>
  Claim C7, as amended. The numbered backup is \<^verbatim>\<open>schematic_editor\<close>'s \<^verbatim>\<open>backup()\<close>, a
  call of its own and no part of \<^verbatim>\<open>save\<close>. The counter is 0 after \<^verbatim>\<open>__init__\<close>. On a path
  with a name, each \<^verbatim>\<open>backup()\<close> raises the counter by one to \<open>N\<close> and writes the
  schematic held in memory (not the file on disk) to the sibling path with
  \<^verbatim>\<open>.bak<N>\<close> before \<^verbatim>\<open>.kicad_sch\<close>; the sibling of every other number \<open>n\<close> is left as it
  was, so no earlier backup is overwritten. \<^verbatim>\<open>schematic_editor\<close>'s \<^verbatim>\<open>save()\<close> writes the
  target only. \<^verbatim>\<open>kicad_utils\<close>' \<^verbatim>\<open>save(backup=True)\<close> writes the schematic held in memory
  to the one sibling \<^verbatim>\<open>.bak.kicad_sch\<close>, without a number, and then to the target.
  All writes here succeed (\<open>write_file\<close>).
\<close>

theorem backup_numbered:
  "backup_counter (init p loaded) = 0 \<and>
   (path_name (path self) \<noteq> [] \<longrightarrow>
      backup write_file self w =
        (Inr (), self\<lparr>backup_counter := backup_counter self + 1\<rparr>,
         w(str_path (bak_sibling (path self) (''.bak'' @ str_int (backup_counter self + 1)))
             \<mapsto> Complete (sch self))) \<and>
      (\<forall>n. n \<noteq> backup_counter self + 1 \<longrightarrow>
         snd (snd (backup write_file self w))
           (str_path (bak_sibling (path self) (''.bak'' @ str_int n))) =
         w (str_path (bak_sibling (path self) (''.bak'' @ str_int n)))) \<and>
      save_session write_file self w =
        (Inr (), self, w(str_path (path self) \<mapsto> Complete (sch self))) \<and>
      save write_file ed True w' =
        (if path_name (path ed) = [] then (Inl (ValueError ''has an empty name''), ed, w')
         else (Inr (), ed, w'(str_path (bak_sibling (path ed) ''.bak'') \<mapsto> Complete (sch ed),
                              str_path (path ed) \<mapsto> Complete (sch ed)))))"
proof (intro conjI impI allI)
  show "backup_counter (init p loaded) = 0" by (rule backup_counter_init)
next
  assume name: "path_name (path self) \<noteq> []"
  then show b: "backup write_file self w =
        (Inr (), self\<lparr>backup_counter := backup_counter self + 1\<rparr>,
         w(str_path (bak_sibling (path self) (''.bak'' @ str_int (backup_counter self + 1)))
             \<mapsto> Complete (sch self)))"
    using with_suffix_bak [of "path self" "backup_counter self + 1"]
    by (simp add: backup_def Let_def write_file_def)
  show "save_session write_file self w =
        (Inr (), self, w(str_path (path self) \<mapsto> Complete (sch self)))"
    by (simp add: save_session_def write_file_def)
  show "save write_file ed True w' =
        (if path_name (path ed) = [] then (Inl (ValueError ''has an empty name''), ed, w')
         else (Inr (), ed, w'(str_path (bak_sibling (path ed) ''.bak'') \<mapsto> Complete (sch ed),
                              str_path (path ed) \<mapsto> Complete (sch ed))))"
  proof (cases "path_name (path ed) = []")
    case True
    then show ?thesis by (simp add: save_def with_suffix_def)
  next
    case False
    then show ?thesis
      using with_suffix_bak_fixed [of "path ed"] by (simp add: save_def write_file_def)
  qed
  fix n
  assume "n \<noteq> backup_counter self + 1"
  then show "snd (snd (backup write_file self w))
           (str_path (bak_sibling (path self) (''.bak'' @ str_int n))) =
         w (str_path (bak_sibling (path self) (''.bak'' @ str_int n)))"
    using str_path_bak_sibling_inj [of "path self" n "backup_counter self + 1"]
    unfolding b by simp
qed

text \<open>
  Two backups in a row of the example session write \<^verbatim>\<open>holes.bak1.kicad_sch\<close> and
  \<^verbatim>\<open>holes.bak2.kicad_sch\<close>; a \<^verbatim>\<open>save()\<close> of the example editor writes
  \<^verbatim>\<open>holes.bak.kicad_sch\<close> and the target.
\<close>

theorem backup_numbered_witness:
  "backup write_file example_session no_files =
     (Inr (), example_session\<lparr>backup_counter := 1\<rparr>,
      no_files(''/holes/holes.bak1.kicad_sch'' \<mapsto> Complete example_schematic)) \<and>
   snd (snd (backup write_file (example_session\<lparr>backup_counter := 1\<rparr>)
      (no_files(''/holes/holes.bak1.kicad_sch'' \<mapsto> Complete example_schematic)))) =
     no_files(''/holes/holes.bak1.kicad_sch'' \<mapsto> Complete example_schematic,
              ''/holes/holes.bak2.kicad_sch'' \<mapsto> Complete example_schematic) \<and>
   save write_file example_editor True no_files =
     (Inr (), example_editor,
      no_files(''/holes/holes.bak.kicad_sch'' \<mapsto> Complete example_schematic,
               ''/holes/holes.kicad_sch'' \<mapsto> Complete example_schematic))"
  using backup_numbered [where self = example_session and w = no_files
      and ed = example_editor and w' = no_files]
    backup_numbered [where self = "example_session\<lparr>backup_counter := 1\<rparr>"
      and w = "no_files(''/holes/holes.bak1.kicad_sch'' \<mapsto> Complete example_schematic)"
      and ed = example_editor and w' = no_files]
  by (simp add: example_path_facts example_session_fields str_int_small example_editor_def)

text \<open>
  Claim C7 as stated fails for \<^verbatim>\<open>kicad_utils\<close>' \<^verbatim>\<open>save\<close> with backup enabled: after a first
  save, an added wire and a second save, the one backup file \<^verbatim>\<open>holes.bak.kicad_sch\<close> holds
  the edited schematic. The first backup has been overwritten, what was copied is the
  new content and not the previous file, and no \<^verbatim>\<open>.bak1\<close> file exists.
\<close>

theorem backup_counterexample:
  "disk_after_first_save ''/holes/holes.bak.kicad_sch'' = Some (Complete example_schematic) \<and>
   snd (snd (save write_file edited_editor True disk_after_first_save))
     ''/holes/holes.bak.kicad_sch'' = Some (Complete (sch edited_editor)) \<and>
   sch edited_editor \<noteq> example_schematic \<and>
   snd (snd (save write_file edited_editor True disk_after_first_save))
     ''/holes/holes.bak1.kicad_sch'' = None"
proof -
  have p: "path edited_editor = example_path" "path example_editor = example_path"
    by (simp_all add: edited_editor_def add_wire_def example_editor_def Let_def)
  have w: "with_suffix example_path ''.bak.kicad_sch'' = Inr (bak_sibling example_path ''.bak'')"
    by (rule with_suffix_bak_fixed) (simp add: example_path_facts)
  have d: "disk_after_first_save =
     no_files(''/holes/holes.bak.kicad_sch'' \<mapsto> Complete example_schematic,
              ''/holes/holes.kicad_sch'' \<mapsto> Complete example_schematic)"
    by (simp add: disk_after_first_save_def save_def p w write_file_def example_path_facts)
       (simp add: example_editor_def)
  have s: "sch edited_editor \<noteq> example_schematic"
    by (simp add: edited_editor_def add_wire_def example_editor_def Let_def example_schematic_def)
  show ?thesis
    by (simp add: d s save_def p w write_file_def example_path_facts no_files_def)
qed

subsection \<open>Saving\<close>

text \<open>
  Claim C8, as amended. Neither \<^verbatim>\<open>save\<close> uses a temporary path or a rename. Whatever the
  writer \<open>to_file\<close> does, \<^verbatim>\<open>schematic_editor\<close>'s \<^verbatim>\<open>save()\<close> and \<^verbatim>\<open>kicad_utils\<close>'
  \<^verbatim>\<open>save(backup=False)\<close> are one call of it on the target path itself, with its outcome
  and the files it leaves; with \<^verbatim>\<open>backup=True\<close> that call follows a successful write of
  the \<^verbatim>\<open>.bak.kicad_sch\<close> sibling. So when the write of the target fails partway
  (\<open>write_file_failing\<close>), the target holds the partial new file.
\<close>

theorem save_direct:
  "save_session to_file self w =
     (fst (to_file (sch self) (str_path (path self)) w), self,
      snd (to_file (sch self) (str_path (path self)) w)) \<and>
   save to_file ed False w =
     (fst (to_file (sch ed) (str_path (path ed)) w), ed,
      snd (to_file (sch ed) (str_path (path ed)) w)) \<and>
   (\<forall>backup_path u w1.
      with_suffix (path ed) ''.bak.kicad_sch'' = Inr backup_path \<and>
      to_file (sch ed) (str_path backup_path) w = (Inr u, w1) \<longrightarrow>
      save to_file ed True w =
        (fst (to_file (sch ed) (str_path (path ed)) w1), ed,
         snd (to_file (sch ed) (str_path (path ed)) w1))) \<and>
   snd (snd (save_session write_file_failing self fs)) (str_path (path self)) =
     Some (Partial (sch self)) \<and>
   snd (snd (save write_file_failing ed False fs)) (str_path (path ed)) =
     Some (Partial (sch ed))"
  by (auto simp: save_session_def save_def write_file_failing_def split: prod.splits)

text \<open>The hypotheses of the \<^verbatim>\<open>backup=True\<close> part hold for the example editor.\<close>

theorem save_direct_witness:
  "save write_file example_editor True no_files =
     (Inr (), example_editor,
      no_files(''/holes/holes.bak.kicad_sch'' \<mapsto> Complete example_schematic,
               ''/holes/holes.kicad_sch'' \<mapsto> Complete example_schematic))"
proof -
  have w: "with_suffix (path example_editor) ''.bak.kicad_sch'' = Inr (bak_sibling example_path ''.bak'')"
    using with_suffix_bak_fixed [of example_path]
    by (simp add: example_path_facts example_editor_def)
  have t: "write_file (sch example_editor) (str_path (bak_sibling example_path ''.bak'')) no_files =
      (Inr (), no_files(''/holes/holes.bak.kicad_sch'' \<mapsto> Complete example_schematic))"
    by (simp add: write_file_def example_path_facts example_editor_def)
  from save_direct [where to_file = write_file and ed = example_editor and w = no_files
      and self = example_session and fs = no_files] w t
  have "save write_file example_editor True no_files =
        (fst (write_file (sch example_editor) (str_path (path example_editor))
               (no_files(''/holes/holes.bak.kicad_sch'' \<mapsto> Complete example_schematic))),
         example_editor,
         snd (write_file (sch example_editor) (str_path (path example_editor))
               (no_files(''/holes/holes.bak.kicad_sch'' \<mapsto> Complete example_schematic))))"
    by blast
  then show ?thesis
    by (simp add: write_file_def example_editor_def example_path_facts)
qed

text \<open>
  Claim C8 as stated fails: the target holds the saved example schematic; a save of
  the edited editor whose write fails partway raises and leaves a partial file at the
  target, not the schematic saved before.
\<close>

theorem save_atomic_counterexample:
  "disk_after_first_save ''/holes/holes.kicad_sch'' = Some (Complete example_schematic) \<and>
   fst (save write_file_failing edited_editor False disk_after_first_save) =
     Inl (OSError ''No space left on device'') \<and>
   snd (snd (save write_file_failing edited_editor False disk_after_first_save))
     ''/holes/holes.kicad_sch'' = Some (Partial (sch edited_editor))"
proof -
  have p: "path edited_editor = example_path" "path example_editor = example_path"
    by (simp_all add: edited_editor_def add_wire_def example_editor_def Let_def)
  have w: "with_suffix example_path ''.bak.kicad_sch'' = Inr (bak_sibling example_path ''.bak'')"
    by (rule with_suffix_bak_fixed) (simp add: example_path_facts)
  have d: "disk_after_first_save ''/holes/holes.kicad_sch'' = Some (Complete example_schematic)"
    by (simp add: disk_after_first_save_def save_def p w write_file_def example_path_facts)
       (simp add: example_editor_def)
  show ?thesis
    by (simp add: d save_def p write_file_failing_def example_path_facts)
qed

section \<open>Properties of schematic\_editor.py\<close>

subsection \<open>Parsing a pin specification\<close>

lemma str_split_nonempty: "str_split sep s \<noteq> []"
  by (induction s) auto

lemma length_str_split: "length (str_split sep s) = Suc (length (filter (\<lambda>x. x = sep) s))"
proof (induction s)
  case Nil
  then show ?case by simp
next
  case (Cons x s)
  have "length (tl (str_split sep s)) = length (str_split sep s) - 1" by simp
  with Cons show ?case by (simp add: str_split_nonempty)
qed

lemma str_split_no_sep: "sep \<notin> set s \<Longrightarrow> str_split sep s = [s]"
  by (induction s) auto

lemma unpack2_two: "length vs = 2 \<Longrightarrow> unpack2 vs = Inr (vs ! 0, vs ! 1)"
  by (cases vs; cases "tl vs"; cases "tl (tl vs)") (auto simp: unpack2_def)

lemma unpack2_less: "length vs < 2 \<Longrightarrow>
  unpack2 vs = Inl (ValueError (''not enough values to unpack (expected 2, got '' @
                                 str_int (int (length vs)) @ '')''))"
  by (cases vs; cases "tl vs") (auto simp: unpack2_def)

lemma unpack2_more: "2 < length vs \<Longrightarrow>
  unpack2 vs = Inl (ValueError ''too many values to unpack (expected 2)'')"
  by (cases vs; cases "tl vs"; cases "tl (tl vs)") (auto simp: unpack2_def)

lemma connect_pins_state: "snd (connect_pins self pin1 pin2) = self"
  by (simp add: connect_pins_def split: sum.splits prod.splits)

lemma connect_pins_no_dot:
  assumes "CHR ''.'' \<notin> set pin2"
  shows "connect_pins self (r @ CHR ''.'' # pin) pin2 =
     (Inl (ValueError (if CHR ''.'' \<in> set r \<or> CHR ''.'' \<in> set pin
                       then ''too many values to unpack (expected 2)''
                       else ''not enough values to unpack (expected 2, got 1)'')), self)"
proof (cases "CHR ''.'' \<in> set r \<or> CHR ''.'' \<in> set pin")
  case True
  then have "filter (\<lambda>x. x = CHR ''.'') r \<noteq> [] \<or> filter (\<lambda>x. x = CHR ''.'') pin \<noteq> []"
    by (auto simp: filter_empty_conv)
  then have "2 < length (str_split (CHR ''.'') (r @ CHR ''.'' # pin))"
    by (auto simp: length_str_split)
  then show ?thesis using True by (simp add: connect_pins_def unpack2_more)
next
  case False
  then have "length (str_split (CHR ''.'') (r @ CHR ''.'' # pin)) = 2"
    by (auto simp: length_str_split filter_empty_conv)
  then have 1: "unpack2 (str_split (CHR ''.'') (r @ CHR ''.'' # pin)) =
      Inr (str_split (CHR ''.'') (r @ CHR ''.'' # pin) ! 0, str_split (CHR ''.'') (r @ CHR ''.'' # pin) ! 1)"
    by (rule unpack2_two)
  have 2: "unpack2 (str_split (CHR ''.'') pin2) = Inl (ValueError ''not enough values to unpack (expected 2, got 1)'')"
    using assms by (simp add: str_split_no_sep unpack2_less str_int_small)
  show ?thesis using False by (simp add: connect_pins_def 1 2)
qed

lemma nets_init: "nets (init p loaded) = Map.empty"
  by (simp add: init_def build_net_map_def)

subsection \<open>wire\_stepper\_driver\<close>

text \<open>
  Claim C9. For every driver reference and every pin argument, \<^verbatim>\<open>wire_stepper_driver\<close>
  raises \<open>ValueError\<close> in its first \<^verbatim>\<open>connect_pins\<close> call and leaves the editor, with its
  document, components and nets, as it was. When the driver reference has no dot, the
  first endpoint parses and the unpacking of \<^verbatim>\<open>"+3V3".split('.')\<close> fails for want of a
  second value; when it has one, the unpacking of the first endpoint already fails.
\<close>

theorem wire_stepper_driver_raises:
  "wire_stepper_driver self driver_ref step_pin dir_pin enable_pin =
     (Inl (ValueError (if CHR ''.'' \<in> set driver_ref
                       then ''too many values to unpack (expected 2)''
                       else ''not enough values to unpack (expected 2, got 1)'')), self)"
proof -
  have "connect_pins self (driver_ref @ ''.VDD'') ''+3V3'' =
     (Inl (ValueError (if CHR ''.'' \<in> set driver_ref
                       then ''too many values to unpack (expected 2)''
                       else ''not enough values to unpack (expected 2, got 1)'')), self)"
    using connect_pins_no_dot [of "''+3V3''" self driver_ref "''VDD''"] by simp
  then show ?thesis
    by (simp add: wire_stepper_driver_def and_then_def)
qed

text \<open>Both cases, on the example session.\<close>

theorem wire_stepper_driver_raises_witness:
  "wire_stepper_driver example_session ''U3'' ''J1.GPIO17'' ''J1.GPIO27'' ''J1.GPIO22'' =
     (Inl (ValueError ''not enough values to unpack (expected 2, got 1)''), example_session) \<and>
   wire_stepper_driver example_session ''U3.A'' ''J1.GPIO17'' ''J1.GPIO27'' ''J1.GPIO22'' =
     (Inl (ValueError ''too many values to unpack (expected 2)''), example_session)"
  using wire_stepper_driver_raises [of example_session "''U3''" "''J1.GPIO17''" "''J1.GPIO27''" "''J1.GPIO22''"]
    wire_stepper_driver_raises [of example_session "''U3.A''" "''J1.GPIO17''" "''J1.GPIO27''" "''J1.GPIO22''"]
  by simp

subsection \<open>connect\_pins\<close>

text \<open>
  Claim C2, as amended. \<^verbatim>\<open>connect_pins\<close> keeps no connectivity: after
  \<^verbatim>\<open>connect_pins(A, B)\<close> and \<^verbatim>\<open>connect_pins(B, C)\<close>, whether they raise or not, the editor
  is exactly as before, and in a session started by \<^verbatim>\<open>__init__\<close> the net map is still
  empty: there is no net identifier for A or for C.
\<close>

theorem connect_pins_leaves_nets:
  "snd (connect_pins (snd (connect_pins self a b)) b c) = self \<and>
   dom (nets (snd (connect_pins (snd (connect_pins (init p loaded) a b)) b c))) = {}"
  by (simp add: connect_pins_state nets_init)

text \<open>
  Claim C2 as stated fails on the example session: both calls return normally and
  leave the session as it was, with no net at all, so neither \<^verbatim>\<open>R1.2\<close> nor \<^verbatim>\<open>D1.K\<close> has
  a net identifier.
\<close>

theorem connect_union_counterexample:
  "connect_pins example_session ''R1.2'' ''D1.A'' = (Inr (), example_session) \<and>
   connect_pins example_session ''D1.A'' ''D1.K'' = (Inr (), example_session) \<and>
   dom (nets example_session) = {}"
  by (simp add: connect_pins_def unpack2_def example_session_def nets_init)

text \<open>
  Claim C4, as amended. A second \<^verbatim>\<open>connect_pins\<close> on the same two pins gives the
  outcome of the first and the editor the first left, which is the editor before it;
  in a session started by \<^verbatim>\<open>__init__\<close> the net map is empty after both calls, so no pin
  has a net membership, and none has two.
\<close>

theorem connect_pins_twice:
  "connect_pins (snd (connect_pins self a b)) a b = connect_pins self a b \<and>
   snd (connect_pins self a b) = self \<and>
   dom (nets (snd (connect_pins (snd (connect_pins (init p loaded) a b)) a b))) = {}"
  by (simp add: connect_pins_state nets_init)

text \<open>
  Claim C4 as stated fails on the example session: after connecting \<^verbatim>\<open>R1.2\<close> and
  \<^verbatim>\<open>D1.A\<close> twice, with both calls returning normally, the number of nets is 0, so
  neither pin has exactly one net membership.
\<close>

theorem connect_idempotent_counterexample:
  "fst (connect_pins (snd (connect_pins example_session ''R1.2'' ''D1.A'')) ''R1.2'' ''D1.A'') = Inr () \<and>
   card (dom (nets (snd (connect_pins (snd (connect_pins example_session ''R1.2'' ''D1.A''))
      ''R1.2'' ''D1.A'')))) = 0"
  by (simp add: connect_pins_state) (simp add: connect_pins_def unpack2_def example_session_def nets_init)

subsection \<open>list\_unconnected\<close>

text \<open>
  Claim C3, as amended. \<^verbatim>\<open>list_unconnected\<close> returns \<^verbatim>\<open>None\<close> in every state: it reads
  nothing of the document and computes no sequence, so nothing is cached either; and
  \<^verbatim>\<open>_get_symbol_pins\<close> declares no pin for any symbol.
\<close>

theorem list_unconnected_none:
  "list_unconnected self = None \<and> get_symbol_pins self symbol = []"
  by (simp add: list_unconnected_def get_symbol_pins_def)

text \<open>
  Claim C3 as stated fails on the example session: no symbol declares a pin, so every
  declared pin is connected and the claim asks for the empty sequence; the call
  returns \<^verbatim>\<open>None\<close>.
\<close>

theorem list_unconnected_counterexample:
  "map (get_symbol_pins example_session) (schematicSymbols (sch example_session)) = [[], []] \<and>
   list_unconnected example_session \<noteq> Some []"
  by (simp add: list_unconnected_def get_symbol_pins_def example_session_def init_def
        build_net_map_def build_component_map_def example_schematic_def)

end
